theory Spec2Isabelle
  imports Complex_Main "HOL-Library.Multiset" "HOL-Library.List_Lexorder" "HOL-Library.Char_ord"
begin

section \<open>Data model\<close>

subsection \<open>JavaScript numbers and JSON field values\<close>

text \<open>
  A JavaScript number is an IEEE double. The code only compares numbers and tests their
  truthiness, it never does arithmetic on them, so a finite double is represented by
  the rational it denotes (\<open>-0\<close> is identified with \<open>0\<close>: both compare equal and both are
  falsy). \<open>NaN\<close> and the two infinities are separate values.
\<close>

datatype jsnum = NaN | NegInf | Fin rat | PosInf

text \<open>The relational operator \<open><\<close> on numbers: every comparison with \<open>NaN\<close> is false.\<close>

fun js_lt :: "jsnum \<Rightarrow> jsnum \<Rightarrow> bool" where
  "js_lt NaN y = False"
| "js_lt x NaN = False"
| "js_lt x NegInf = False"
| "js_lt NegInf y = True"
| "js_lt PosInf y = False"
| "js_lt (Fin a) PosInf = True"
| "js_lt (Fin a) (Fin b) = (a < b)"

definition js_gt :: "jsnum \<Rightarrow> jsnum \<Rightarrow> bool" where
  "js_gt x y = js_lt y x"

text \<open>Truthiness of a number: \<open>NaN\<close> and \<open>0\<close> are falsy. \<open>x || d\<close> on numbers.\<close>

definition truthy :: "jsnum \<Rightarrow> bool" where
  "truthy x = (x \<noteq> NaN \<and> x \<noteq> Fin 0)"

definition or_default :: "jsnum \<Rightarrow> jsnum \<Rightarrow> jsnum" where
  "or_default x d = (if truthy x then x else d)"

text \<open>
  A numeric attribute of a record as it arrives in the JSON payload: the property is
  missing (reading it gives \<open>undefined\<close>), it is \<open>null\<close>, or it is a (finite) number.
  \<open>ToNumber\<close> is the conversion the relational operators apply to such an operand.
\<close>

datatype jsval = Undefined | Null | Number rat

fun ToNumber :: "jsval \<Rightarrow> jsnum" where
  "ToNumber Undefined = NaN"
| "ToNumber Null = Fin 0"
| "ToNumber (Number q) = Fin q"

subsection \<open>Records, payloads, session storage, application state\<close>

text \<open>
  One instrument as the API returns it. Only the attributes that the merge, the filter
  and the portfolio read are kept; \<open>symbol\<close> is a string, the numeric attributes are
  optional.
\<close>

record stock =
  symbol :: string
  price :: jsval
  change_pct :: jsval
  rsi :: jsval
  volume :: jsval

text \<open>
  The parsed body of a market-data response: a JSON object whose \<open>stocks\<close> property
  is an array of records, or is missing (\<open>None\<close>).
\<close>

record market_data =
  stocks :: "stock list option"

text \<open>
  \<open>sessionStorage\<close>, one field per key the application uses; \<open>None\<close> is a key that is
  not set (\<open>getItem\<close> returns \<open>null\<close>). Values are kept in parsed form: every value is
  written with \<open>JSON.stringify\<close> (or \<open>toString\<close> for the timestamp) and read back with
  \<open>JSON.parse\<close> (or \<open>parseInt\<close>).
\<close>

record storage =
  wolfee_market_data :: "market_data option"
  wolfee_cache_time :: "int option"
  wolfee_ai_insight :: "string option"
  wolfee_opportunities :: "stock list option"
  wolfee_portfolio :: "stock list option"

datatype endpoint = MarketQuick | MarketFull | Insight | Opportunities

text \<open>
  The mutable globals: \<open>window.allStocks\<close> (\<open>None\<close> while it is still undefined), the
  script-level variable \<open>allStocks\<close>, \<open>currentSymbol\<close> (\<open>None\<close> is \<open>null\<close>), the session
  storage, and a log of the network requests issued so far. DOM updates are not part
  of the state.
\<close>

record state =
  window_allStocks :: "stock list option"
  allStocks :: "stock list"
  currentSymbol :: "string option"
  sessionStorage :: storage
  requests :: "endpoint list"

text \<open>
  What \<open>fetch\<close> followed by \<open>response.json()\<close> can produce: the request is rejected
  (network error or abort), or a response arrives with its \<open>ok\<close> flag and a body that
  either fails to parse as JSON or parses to a payload.
\<close>

datatype body = Unparsable | Parsed market_data

datatype response = Rejected | Response bool body

section \<open>Fetch pipeline and merge (main.js)\<close>

text \<open>\<open>processData\<close>: the payload replaces the working set (\<open>data.stocks || []\<close>).\<close>

definition processData :: "state \<Rightarrow> market_data \<Rightarrow> state" where
  "processData st data =
     (let l = (case stocks data of None \<Rightarrow> [] | Some xs \<Rightarrow> xs)
      in st\<lparr>allStocks := l, window_allStocks := Some l\<rparr>)"


text \<open>
  A function that can end by throwing: \<open>Threw\<close> carries the state at the moment of the
  throw, \<open>Returned\<close> the state at the normal return.
\<close>

datatype 'a outcome = Returned 'a | Threw 'a

fun outcome_state :: "'a outcome \<Rightarrow> 'a" where
  "outcome_state (Returned s) = s"
| "outcome_state (Threw s) = s"

definition setCache :: "state \<Rightarrow> market_data \<Rightarrow> int \<Rightarrow> state" where
  \<comment> \<open>the two \<open>setItem\<close> calls that write the snapshot blob and \<open>Date.now()\<close>\<close>
  "setCache st data now =
     st\<lparr>sessionStorage := (sessionStorage st)
          \<lparr>wolfee_market_data := Some data, wolfee_cache_time := Some now\<rparr>\<rparr>"

text \<open>
  \<open>fetchQuickBatch\<close> (stage 1). The response and the value of \<open>Date.now()\<close> at the
  cache write are inputs; the abort after the time budget is a rejected request. Every
  failure is rethrown to the caller. On a payload without \<open>stocks\<close> the final
  \<open>data.stocks.length\<close> throws after the cache and the working set were written.
\<close>

definition fetchQuickBatch :: "state \<Rightarrow> response \<Rightarrow> int \<Rightarrow> state outcome" where
  "fetchQuickBatch st0 resp now =
     (let st = st0\<lparr>requests := requests st0 @ [MarketQuick]\<rparr> in
      case resp of
        Rejected \<Rightarrow> Threw st
      | Response ok b \<Rightarrow>
          if \<not> ok then Threw st
          else (case b of
              Unparsable \<Rightarrow> Threw st
            | Parsed data \<Rightarrow>
                let st2 = processData (setCache st data now) data
                in (case stocks data of None \<Rightarrow> Threw st2 | Some xs \<Rightarrow> Returned st2)))"

text \<open>
  The merge step of \<open>fetchFullBatchInBackground\<close>: \<open>currentStocks\<close> is
  \<open>window.allStocks || []\<close>, and \<open>newStocks\<close> are the incoming records for which no
  record of \<open>currentStocks\<close> has the same symbol (the delta that is rendered).
\<close>

definition workingSet :: "state \<Rightarrow> stock list" where
  "workingSet st = (case window_allStocks st of None \<Rightarrow> [] | Some xs \<Rightarrow> xs)"

definition newStocks_of :: "stock list \<Rightarrow> stock list \<Rightarrow> stock list" where
  "newStocks_of currentStocks incoming =
     filter (\<lambda>newStock. \<not> list_ex (\<lambda>existing. symbol existing = symbol newStock) currentStocks)
       incoming"

text \<open>
  \<open>fetchFullBatchInBackground\<close> (stage 2). A rejected request, a parse failure and the
  \<open>TypeError\<close> of \<open>data.stocks.filter\<close> on a payload without \<open>stocks\<close> all end in the
  \<open>catch\<close> block, which only logs; the last of them happens after the cache write.
\<close>

definition fetchFullBatchInBackground :: "state \<Rightarrow> response \<Rightarrow> int \<Rightarrow> state" where
  "fetchFullBatchInBackground st0 resp now =
     (let st = st0\<lparr>requests := requests st0 @ [MarketFull]\<rparr> in
      case resp of
        Rejected \<Rightarrow> st
      | Response ok b \<Rightarrow>
          if \<not> ok then st
          else (case b of
              Unparsable \<Rightarrow> st
            | Parsed data \<Rightarrow>
                let st1 = setCache st data now
                in (case stocks data of
                      None \<Rightarrow> st1
                    | Some incoming \<Rightarrow>
                        let currentStocks = workingSet st1;
                            newStocks = newStocks_of currentStocks incoming
                        in if length newStocks > 0
                           then st1\<lparr>window_allStocks := Some (currentStocks @ newStocks)\<rparr>
                           else st1)))"

text \<open>
  The other version of the second stage, \<open>fetchFullBatch\<close>: a non-empty full list is
  cached and replaces the working set through \<open>processData\<close>; anything else changes
  nothing.
\<close>

definition fetchFullBatch :: "state \<Rightarrow> response \<Rightarrow> int \<Rightarrow> state" where
  "fetchFullBatch st0 resp now =
     (let st = st0\<lparr>requests := requests st0 @ [MarketFull]\<rparr> in
      case resp of
        Rejected \<Rightarrow> st
      | Response ok b \<Rightarrow>
          if \<not> ok then st
          else (case b of
              Unparsable \<Rightarrow> st
            | Parsed data \<Rightarrow>
                let fullList = (case stocks data of None \<Rightarrow> [] | Some xs \<Rightarrow> xs)
                in if length fullList > 0 then processData (setCache st data now) data else st))"

text \<open>
  The first stage that goes with \<open>fetchFullBatch\<close>: after a successful response it caches
  and displays the list of the mock generator (\<open>mock\<close>, the empty list when the generator
  is not loaded) instead of the payload. It has no \<open>catch\<close>.
\<close>

definition fetchQuickBatch_mock :: "stock list \<Rightarrow> state \<Rightarrow> response \<Rightarrow> int \<Rightarrow> state outcome" where
  "fetchQuickBatch_mock mock st0 resp now =
     (let st = st0\<lparr>requests := requests st0 @ [MarketQuick]\<rparr> in
      case resp of
        Rejected \<Rightarrow> Threw st
      | Response ok b \<Rightarrow>
          if \<not> ok then Threw st
          else (case b of
              Unparsable \<Rightarrow> Threw st
            | Parsed data \<Rightarrow>
                let fallbackData = \<lparr>stocks = Some mock\<rparr>
                in Returned (processData (setCache st fallbackData now) fallbackData)))"

subsection \<open>Insight and opportunities (api.js)\<close>

text \<open>Everything the network answers during one run of \<open>init\<close>, and the clock at the two
  cache writes. \<open>None\<close> for the insight or the opportunities is any failure of that call.\<close>

record network =
  net_quick :: response
  net_quick_time :: int
  net_full :: response
  net_full_time :: int
  net_insight :: "string option"
  net_opportunities :: "stock list option"
  net_mock :: "stock list"

definition newlines_to_br :: "string \<Rightarrow> string" where
  "newlines_to_br s = concat (map (\<lambda>c. if c = CHR 0x0A then ''<br>'' else [c]) s)"

definition loadAIInsight :: "state \<Rightarrow> network \<Rightarrow> state" where
  "loadAIInsight st net =
     (case wolfee_ai_insight (sessionStorage st) of
        Some (c # cs) \<Rightarrow> st
      | _ \<Rightarrow>
          let st1 = st\<lparr>requests := requests st @ [Insight]\<rparr> in
          (case net_insight net of
             None \<Rightarrow> st1
           | Some text \<Rightarrow>
               st1\<lparr>sessionStorage := (sessionStorage st1)
                     \<lparr>wolfee_ai_insight := Some (newlines_to_br text)\<rparr>\<rparr>))"

definition loadOpportunities :: "state \<Rightarrow> network \<Rightarrow> state" where
  "loadOpportunities st net =
     (case wolfee_opportunities (sessionStorage st) of
        Some cached \<Rightarrow> st
      | None \<Rightarrow>
          let st1 = st\<lparr>requests := requests st @ [Opportunities]\<rparr> in
          (case net_opportunities net of
             None \<Rightarrow> st1
           | Some opps \<Rightarrow>
               st1\<lparr>sessionStorage := (sessionStorage st1)\<lparr>wolfee_opportunities := Some opps\<rparr>\<rparr>))"

subsection \<open>Start-up and refresh\<close>

text \<open>
  The test \<open>cachedData && cacheTime && (now - parseInt(cacheTime)) < 300000\<close> at the
  head of \<open>init\<close>; it yields the cached payload when the cache is used.
\<close>

definition cachedSnapshot :: "state \<Rightarrow> int \<Rightarrow> market_data option" where
  "cachedSnapshot st now =
     (case wolfee_market_data (sessionStorage st) of
        None \<Rightarrow> None
      | Some data \<Rightarrow>
          (case wolfee_cache_time (sessionStorage st) of
             None \<Rightarrow> None
           | Some cacheTime \<Rightarrow> if now - cacheTime < 300000 then Some data else None))"

text \<open>
  \<open>init\<close>. The second stage and the two side loads are started without \<open>await\<close>; their
  completions touch disjoint parts of the state, so they are applied in the order in
  which they are started.
\<close>

definition init :: "state \<Rightarrow> int \<Rightarrow> network \<Rightarrow> state" where
  "init st now net =
     (case cachedSnapshot st now of
        Some data \<Rightarrow> loadOpportunities (loadAIInsight (processData st data) net) net
      | None \<Rightarrow>
          (case fetchQuickBatch st (net_quick net) (net_quick_time net) of
             Threw st1 \<Rightarrow> st1
           | Returned st1 \<Rightarrow>
               loadOpportunities
                 (loadAIInsight
                    (fetchFullBatchInBackground st1 (net_full net) (net_full_time net)) net) net))"

definition init_mock :: "state \<Rightarrow> int \<Rightarrow> network \<Rightarrow> state" where
  "init_mock st now net =
     (case cachedSnapshot st now of
        Some data \<Rightarrow> loadOpportunities (loadAIInsight (processData st data) net) net
      | None \<Rightarrow>
          (case fetchQuickBatch_mock (net_mock net) st (net_quick net) (net_quick_time net) of
             Threw st1 \<Rightarrow> st1
           | Returned st1 \<Rightarrow>
               loadOpportunities
                 (loadAIInsight
                    (fetchFullBatch st1 (net_full net) (net_full_time net)) net) net))"

text \<open>\<open>refreshMarket\<close>: the three \<open>removeItem\<close> calls, then \<open>init\<close>.\<close>

definition clearCacheKeys :: "storage \<Rightarrow> storage" where
  "clearCacheKeys s =
     s\<lparr>wolfee_market_data := None, wolfee_ai_insight := None, wolfee_opportunities := None\<rparr>"

definition refreshMarket :: "state \<Rightarrow> int \<Rightarrow> network \<Rightarrow> state" where
  "refreshMarket st now net = init (st\<lparr>sessionStorage := clearCacheKeys (sessionStorage st)\<rparr>) now net"

definition marketRequests :: "state \<Rightarrow> endpoint list" where
  \<comment> \<open>the requests of the two pipeline stages in the log\<close>
  "marketRequests st = filter (\<lambda>e. e = MarketQuick \<or> e = MarketFull) (requests st)"

section \<open>Region and attribute filter (filters.js)\<close>

text \<open>\<open>String.prototype.endsWith\<close> with one argument.\<close>

definition endsWith :: "string \<Rightarrow> string \<Rightarrow> bool" where
  "endsWith str search =
     (length search \<le> length str \<and> drop (length str - length search) str = search)"

text \<open>
  \<open>Array.prototype.sort\<close> with a comparator. The language fixes the result only for a
  consistent comparator, for which the sort is stable; insertion from the right, each
  element placed before the first one it does not exceed, computes that result.
\<close>

fun insert_before :: "('a \<Rightarrow> 'a \<Rightarrow> int) \<Rightarrow> 'a \<Rightarrow> 'a list \<Rightarrow> 'a list" where
  "insert_before compareFn a [] = [a]"
| "insert_before compareFn a (b # bs) =
     (if compareFn a b \<le> 0 then a # b # bs else b # insert_before compareFn a bs)"

fun array_sort :: "('a \<Rightarrow> 'a \<Rightarrow> int) \<Rightarrow> 'a list \<Rightarrow> 'a list" where
  "array_sort compareFn [] = []"
| "array_sort compareFn (a # as) = insert_before compareFn a (array_sort compareFn as)"

text \<open>
  The seven filter inputs, each as the value \<open>parseFloat\<close> returns for the text of its
  input element: \<open>NaN\<close> for an empty or unparsable text and for a missing element,
  \<open>Fin 0\<close> for the text \<open>0\<close>, and so on.
\<close>

record filter_inputs =
  filter_price_min :: jsnum
  filter_price_max :: jsnum
  filter_rsi_min :: jsnum
  filter_rsi_max :: jsnum
  filter_change_min :: jsnum
  filter_change_max :: jsnum
  filter_vol_min :: jsnum

text \<open>
  \<open>applyFilters\<close>. \<open>localeCompare\<close> is the collation of the host and \<open>isGlobalMode\<close> the
  state of the region switch; the result is the list of cards rendered into the grid,
  in order (none when \<open>window.allStocks\<close> is undefined or nothing passes).
\<close>

definition applyFilters ::
  "(string \<Rightarrow> string \<Rightarrow> int) \<Rightarrow> filter_inputs \<Rightarrow> bool \<Rightarrow> state \<Rightarrow> stock list" where
  "applyFilters localeCompare inp isGlobalMode st =
     (let priceMin = or_default (filter_price_min inp) (Fin 0);
          priceMax = or_default (filter_price_max inp) PosInf;
          rsiMin = or_default (filter_rsi_min inp) (Fin 0);
          rsiMax = or_default (filter_rsi_max inp) (Fin 100);
          changeMin = or_default (filter_change_min inp) NegInf;
          changeMax = or_default (filter_change_max inp) PosInf;
          volMin = or_default (filter_vol_min inp) (Fin 0)
      in case window_allStocks st of
           None \<Rightarrow> []
         | Some all \<Rightarrow>
             let byRegion = filter (\<lambda>stock.
                    let isStockGlobal = \<not> endsWith (symbol stock) ''.IS''
                    in if isGlobalMode then isStockGlobal else \<not> isStockGlobal) all;
                 filtered = filter (\<lambda>stock.
                    if js_lt (ToNumber (price stock)) priceMin \<or> js_gt (ToNumber (price stock)) priceMax
                      then False
                    else if js_lt (ToNumber (rsi stock)) rsiMin \<or> js_gt (ToNumber (rsi stock)) rsiMax
                      then False
                    else if js_lt (ToNumber (change_pct stock)) changeMin
                          \<or> js_gt (ToNumber (change_pct stock)) changeMax
                      then False
                    else if js_lt (ToNumber (volume stock)) volMin then False
                    else True) byRegion
             in if isGlobalMode
                then array_sort (\<lambda>a b. localeCompare (symbol a) (symbol b)) filtered
                else filtered)"

section \<open>Portfolio (portfolio.js)\<close>

definition getPortfolio :: "state \<Rightarrow> stock list" where
  "getPortfolio st = (case wolfee_portfolio (sessionStorage st) of None \<Rightarrow> [] | Some l \<Rightarrow> l)"

definition savePortfolio :: "state \<Rightarrow> stock list \<Rightarrow> state" where
  "savePortfolio st l = st\<lparr>sessionStorage := (sessionStorage st)\<lparr>wolfee_portfolio := Some l\<rparr>\<rparr>"

text \<open>\<open>Array.prototype.findIndex\<close>: the first index whose element satisfies the test, else \<open>-1\<close>.\<close>

fun findIndex :: "('a \<Rightarrow> bool) \<Rightarrow> 'a list \<Rightarrow> int" where
  "findIndex P [] = - 1"
| "findIndex P (x # xs) =
     (if P x then 0 else (let i = findIndex P xs in if i < 0 then - 1 else i + 1))"

text \<open>
  \<open>togglePortfolioItem\<close>. A null or empty \<open>currentSymbol\<close> returns at once; reading
  \<open>find\<close> of an undefined \<open>window.allStocks\<close> throws before anything is written; a symbol
  that \<open>find\<close> does not resolve returns at once. Otherwise the entry at \<open>existingIndex\<close> is
  spliced out, or the resolved record is pushed, and the list is saved.
\<close>

definition togglePortfolioItem :: "state \<Rightarrow> state outcome" where
  "togglePortfolioItem st =
     (case currentSymbol st of
        None \<Rightarrow> Returned st
      | Some cs \<Rightarrow>
          if cs = [] then Returned st
          else (case window_allStocks st of
              None \<Rightarrow> Threw st
            | Some all \<Rightarrow>
                (case find (\<lambda>s. symbol s = cs) all of
                   None \<Rightarrow> Returned st
                 | Some stock \<Rightarrow>
                     let list = getPortfolio st;
                         existingIndex = findIndex (\<lambda>s. symbol s = cs) list
                     in Returned (savePortfolio st
                          (if existingIndex \<ge> 0
                           then take (nat existingIndex) list @ drop (nat existingIndex + 1) list
                           else list @ [stock])))))"

section \<open>Notions used in the statements\<close>

text \<open>A run of second-stage completions, each with its snapshot and its clock value.\<close>

fun mergeSnapshots :: "state \<Rightarrow> (stock list \<times> int) list \<Rightarrow> state" where
  "mergeSnapshots st [] = st"
| "mergeSnapshots st ((snapshot, now) # rest) =
     mergeSnapshots
       (fetchFullBatchInBackground st (Response True (Parsed \<lparr>stocks = Some snapshot\<rparr>)) now) rest"

text \<open>The three ways in which the second-stage fetch fails.\<close>

fun fullStageFails :: "response \<Rightarrow> bool" where
  "fullStageFails Rejected = True"
| "fullStageFails (Response ok Unparsable) = True"
| "fullStageFails (Response ok (Parsed data)) = (\<not> ok)"


text \<open>
  Modelled from the spec: \<open>String.prototype.localeCompare\<close>, the comparison that
  \<open>applyFilters\<close> hands to the sort. It is a builtin of the host and its collation is
  not part of the repository; the spec has the global partition sorted ascending by
  symbol, lexicographically, so the comparison is that of the two strings character by
  character.
\<close>

definition codeUnitCompare :: "string \<Rightarrow> string \<Rightarrow> int" where
  "codeUnitCompare a b = (if a < b then - 1 else if a = b then 0 else 1)"


text \<open>
  What an interval check lets through, read off the attribute itself: a missing
  attribute passes, \<open>null\<close> counts as \<open>0\<close>, a number has to lie in the closed interval.
\<close>

fun in_closed :: "rat \<Rightarrow> rat \<Rightarrow> jsval \<Rightarrow> bool" where
  "in_closed lo hi Undefined = True"
| "in_closed lo hi Null = (lo \<le> 0 \<and> 0 \<le> hi)"
| "in_closed lo hi (Number q) = (lo \<le> q \<and> q \<le> hi)"






definition unset :: filter_inputs where
  \<comment> \<open>all seven inputs empty\<close>
  "unset = \<lparr>filter_price_min = NaN, filter_price_max = NaN, filter_rsi_min = NaN,
            filter_rsi_max = NaN, filter_change_min = NaN, filter_change_max = NaN,
            filter_vol_min = NaN\<rparr>"

definition quote :: "string \<Rightarrow> rat \<Rightarrow> stock" where
  \<comment> \<open>a record with a symbol and a price only, as \<open>{symbol: s, price: p}\<close>\<close>
  "quote s p = \<lparr>symbol = s, price = Number p, change_pct = Undefined, rsi = Undefined,
                volume = Undefined\<rparr>"

definition fresh :: state where
  \<comment> \<open>the state of a newly opened tab\<close>
  "fresh = \<lparr>window_allStocks = None, allStocks = [], currentSymbol = None,
            sessionStorage = \<lparr>wolfee_market_data = None, wolfee_cache_time = None,
              wolfee_ai_insight = None, wolfee_opportunities = None, wolfee_portfolio = None\<rparr>,
            requests = []\<rparr>"

definition offline :: network where
  \<comment> \<open>a network on which every request is rejected\<close>
  "offline = \<lparr>net_quick = Rejected, net_quick_time = 0, net_full = Rejected, net_full_time = 0,
              net_insight = None, net_opportunities = None, net_mock = []\<rparr>"

definition all_keys_set :: state where
  \<comment> \<open>a session in which all five storage keys are set, the cache written at time 1000\<close>
  "all_keys_set =
     \<lparr>window_allStocks = Some [quote ''AAA'' 10], allStocks = [quote ''AAA'' 10],
      currentSymbol = None,
      sessionStorage = \<lparr>wolfee_market_data = Some \<lparr>stocks = Some [quote ''AAA'' 10]\<rparr>,
        wolfee_cache_time = Some 1000, wolfee_ai_insight = Some ''Markets are calm.'',
        wolfee_opportunities = Some [quote ''AAA'' 10],
        wolfee_portfolio = Some [quote ''AAA'' 10]\<rparr>,
      requests = []\<rparr>"

definition online :: network where
  \<comment> \<open>a network on which both stages succeed, at times 400000 and 400500\<close>
  "online = \<lparr>net_quick = Response True (Parsed \<lparr>stocks = Some [quote ''AAA'' 11]\<rparr>),
             net_quick_time = 400000,
             net_full = Response True (Parsed \<lparr>stocks = Some [quote ''AAA'' 11, quote ''BBB'' 5]\<rparr>),
             net_full_time = 400500,
             net_insight = None, net_opportunities = None, net_mock = []\<rparr>"

section \<open>The merge of the second stage\<close>

lemma list_ex_symbol: "list_ex (\<lambda>e. symbol e = k) xs \<longleftrightarrow> k \<in> symbol ` set xs"
  by (auto simp: list_ex_iff)

lemma newStocks_of_set:
  "newStocks_of cur inc = filter (\<lambda>r. symbol r \<notin> symbol ` set cur) inc"
  by (simp add: newStocks_of_def list_ex_symbol)

lemma workingSet_setCache [simp]: "workingSet (setCache st data now) = workingSet st"
  by (simp add: workingSet_def setCache_def)

lemma workingSet_requests [simp]: "workingSet (st\<lparr>requests := r\<rparr>) = workingSet st"
  by (simp add: workingSet_def)

lemma workingSet_full_success:
  "workingSet (fetchFullBatchInBackground st (Response True (Parsed \<lparr>stocks = Some incoming\<rparr>)) now)
     = workingSet st @ newStocks_of (workingSet st) incoming"
  by (simp add: fetchFullBatchInBackground_def Let_def) (simp add: workingSet_def)

lemma newStocks_of_merged:
  "newStocks_of (cur @ newStocks_of cur inc) inc = []"
  by (auto simp: newStocks_of_set filter_empty_conv)

lemma distinct_merge:
  assumes "distinct (map symbol cur)" and "distinct (map symbol inc)"
  shows "distinct (map symbol (cur @ newStocks_of cur inc))"
proof -
  have "distinct (map symbol (newStocks_of cur inc))"
    using assms(2) by (simp add: newStocks_of_set distinct_map_filter)
  moreover have "symbol ` set cur \<inter> symbol ` set (newStocks_of cur inc) = {}"
    by (auto simp: newStocks_of_set) (metis imageI)
  ultimately show ?thesis
    using assms(1) by simp
qed

lemma distinct_mergeSnapshots:
  "distinct (map symbol (workingSet st)) \<Longrightarrow>
   \<forall>(snapshot, now) \<in> set snaps. distinct (map symbol snapshot) \<Longrightarrow>
   distinct (map symbol (workingSet (mergeSnapshots st snaps)))"
proof (induction snaps arbitrary: st)
  case Nil
  then show ?case by simp
next
  case (Cons p snaps)
  obtain snapshot now where p: "p = (snapshot, now)" by (cases p)
  from Cons.prems have "distinct (map symbol snapshot)" by (simp add: p)
  with Cons.prems(1) have "distinct (map symbol (workingSet
      (fetchFullBatchInBackground st (Response True (Parsed \<lparr>stocks = Some snapshot\<rparr>)) now)))"
    unfolding workingSet_full_success by (rule distinct_merge)
  moreover from Cons.prems have "\<forall>(snapshot, now) \<in> set snaps. distinct (map symbol snapshot)"
    by simp
  ultimately show ?case
    using Cons.IH by (simp add: p)
qed

text \<open>
  C1, as the code has it. A successful second stage leaves every record of the working
  set where it is and as it is, and appends the incoming records whose symbol no record
  of the working set carries, in arrival order; exactly these form the delta. An incoming
  record whose symbol is already present is dropped: it neither replaces the existing
  entry nor enters the delta. With \<open>[{AAA, 10}]\<close> from the quick stage and
  \<open>[{AAA, 11}, {BBB, 5}]\<close> from the full stage the working set becomes
  \<open>[{AAA, 10}, {BBB, 5}]\<close> and the delta is \<open>[{BBB, 5}]\<close>.
\<close>

theorem merge_keeps_existing_appends_unseen:
  "workingSet (fetchFullBatchInBackground st (Response True (Parsed \<lparr>stocks = Some incoming\<rparr>)) now)
     = workingSet st @ newStocks_of (workingSet st) incoming
   \<and> newStocks_of (workingSet st) incoming
     = filter (\<lambda>r. symbol r \<notin> symbol ` set (workingSet st)) incoming
   \<and> workingSet (fetchFullBatchInBackground
        (outcome_state (fetchQuickBatch fresh (Response True (Parsed \<lparr>stocks = Some [quote ''AAA'' 10]\<rparr>)) t0))
        (Response True (Parsed \<lparr>stocks = Some [quote ''AAA'' 11, quote ''BBB'' 5]\<rparr>)) t1)
     = [quote ''AAA'' 10, quote ''BBB'' 5]
   \<and> newStocks_of
        (workingSet (outcome_state (fetchQuickBatch fresh (Response True (Parsed \<lparr>stocks = Some [quote ''AAA'' 10]\<rparr>)) t0)))
        [quote ''AAA'' 11, quote ''BBB'' 5]
     = [quote ''BBB'' 5]"
proof -
  have q: "workingSet (outcome_state (fetchQuickBatch fresh
             (Response True (Parsed \<lparr>stocks = Some [quote ''AAA'' 10]\<rparr>)) t0)) = [quote ''AAA'' 10]"
    by (simp add: fetchQuickBatch_def processData_def workingSet_def Let_def)
  have d: "newStocks_of [quote ''AAA'' 10] [quote ''AAA'' 11, quote ''BBB'' 5] = [quote ''BBB'' 5]"
    by (simp add: newStocks_of_def quote_def)
  show ?thesis
    by (simp only: workingSet_full_success q d) (simp add: newStocks_of_set)
qed

text \<open>
  C1 as stated fails on its own scenario: the working set after the merge is not
  \<open>[{AAA, 11}, {BBB, 5}]\<close>, because the entry for \<open>AAA\<close> keeps the price 10.
\<close>

theorem merge_scenario_counterexample:
  "workingSet (fetchFullBatchInBackground
      (outcome_state (fetchQuickBatch fresh (Response True (Parsed \<lparr>stocks = Some [quote ''AAA'' 10]\<rparr>)) 1000))
      (Response True (Parsed \<lparr>stocks = Some [quote ''AAA'' 11, quote ''BBB'' 5]\<rparr>)) 2000)
   \<noteq> [quote ''AAA'' 11, quote ''BBB'' 5]"
  by (simp add: fetchFullBatchInBackground_def fetchQuickBatch_def processData_def setCache_def
      workingSet_def newStocks_of_def quote_def fresh_def Let_def)

text \<open>
  C3. Starting from the empty working set, after any finite sequence of merges of
  snapshots, each with pairwise distinct symbols, every symbol occurs at most once in
  the working set.
\<close>

theorem no_duplicate_symbols:
  assumes "workingSet st = []"
    and "\<forall>(snapshot, now) \<in> set snaps. distinct (map symbol snapshot)"
  shows "distinct (map symbol (workingSet (mergeSnapshots st snaps)))"
  using assms by (intro distinct_mergeSnapshots) simp_all

theorem no_duplicate_symbols_witness:
  "workingSet fresh = []
   \<and> distinct (map symbol [quote ''AAA'' 10])
   \<and> distinct (map symbol [quote ''AAA'' 11, quote ''BBB'' 5])
   \<and> distinct (map symbol (workingSet (mergeSnapshots fresh
        [([quote ''AAA'' 10], 1000), ([quote ''AAA'' 11, quote ''BBB'' 5], 2000)])))
   \<and> map symbol (workingSet (mergeSnapshots fresh
        [([quote ''AAA'' 10], 1000), ([quote ''AAA'' 11, quote ''BBB'' 5], 2000)])) = [''AAA'', ''BBB'']"
  using no_duplicate_symbols [of fresh "[([quote ''AAA'' 10], 1000), ([quote ''AAA'' 11, quote ''BBB'' 5], 2000)]"]
  by (simp add: workingSet_full_success newStocks_of_def quote_def) (simp add: workingSet_def fresh_def)

text \<open>
  C5. Merging the same snapshot a second time leaves the working set as the first merge
  made it, its delta is empty, and no symbol gains an occurrence.
\<close>

theorem merge_idempotent:
  "workingSet (fetchFullBatchInBackground
      (fetchFullBatchInBackground st (Response True (Parsed \<lparr>stocks = Some A\<rparr>)) t1)
      (Response True (Parsed \<lparr>stocks = Some A\<rparr>)) t2)
     = workingSet (fetchFullBatchInBackground st (Response True (Parsed \<lparr>stocks = Some A\<rparr>)) t1)
   \<and> newStocks_of
        (workingSet (fetchFullBatchInBackground st (Response True (Parsed \<lparr>stocks = Some A\<rparr>)) t1)) A = []
   \<and> mset (map symbol (workingSet (fetchFullBatchInBackground
        (fetchFullBatchInBackground st (Response True (Parsed \<lparr>stocks = Some A\<rparr>)) t1)
        (Response True (Parsed \<lparr>stocks = Some A\<rparr>)) t2)))
     = mset (map symbol (workingSet
        (fetchFullBatchInBackground st (Response True (Parsed \<lparr>stocks = Some A\<rparr>)) t1)))"
  by (simp add: workingSet_full_success newStocks_of_merged)

section \<open>Failure of the second stage\<close>

lemma full_stage_failure_background:
  "fullStageFails resp \<Longrightarrow>
   fetchFullBatchInBackground st resp now = st\<lparr>requests := requests st @ [MarketFull]\<rparr>"
  by (cases resp rule: fullStageFails.cases) (simp_all add: fetchFullBatchInBackground_def Let_def)

lemma full_stage_failure_fetchFullBatch:
  "fullStageFails resp \<Longrightarrow>
   fetchFullBatch st resp now = st\<lparr>requests := requests st @ [MarketFull]\<rparr>"
  by (cases resp rule: fullStageFails.cases) (simp_all add: fetchFullBatch_def Let_def)

text \<open>
  C2. When the second-stage fetch fails (the request is rejected, the status is not a
  success, or the body does not parse), the working set and the session storage, with
  the snapshot blob and the write timestamp, are exactly as before; only the request
  log has grown. This holds for both versions of the second stage.
\<close>

theorem full_stage_failure_changes_nothing:
  assumes "fullStageFails resp"
  shows "fetchFullBatchInBackground st resp now = st\<lparr>requests := requests st @ [MarketFull]\<rparr>
       \<and> fetchFullBatch st resp now = st\<lparr>requests := requests st @ [MarketFull]\<rparr>
       \<and> window_allStocks (fetchFullBatchInBackground st resp now) = window_allStocks st
       \<and> sessionStorage (fetchFullBatchInBackground st resp now) = sessionStorage st
       \<and> window_allStocks (fetchFullBatch st resp now) = window_allStocks st
       \<and> sessionStorage (fetchFullBatch st resp now) = sessionStorage st"
  using assms by (simp add: full_stage_failure_background full_stage_failure_fetchFullBatch)

theorem full_stage_failure_changes_nothing_witness:
  "fullStageFails (Response False (Parsed \<lparr>stocks = Some [quote ''AAA'' 11, quote ''BBB'' 5]\<rparr>))
   \<and> workingSet (fetchFullBatchInBackground
        (outcome_state (fetchQuickBatch fresh (Response True (Parsed \<lparr>stocks = Some [quote ''AAA'' 10]\<rparr>)) 1000))
        (Response False (Parsed \<lparr>stocks = Some [quote ''AAA'' 11, quote ''BBB'' 5]\<rparr>)) 2000)
       = [quote ''AAA'' 10]
   \<and> sessionStorage (fetchFullBatchInBackground
        (outcome_state (fetchQuickBatch fresh (Response True (Parsed \<lparr>stocks = Some [quote ''AAA'' 10]\<rparr>)) 1000))
        (Response False (Parsed \<lparr>stocks = Some [quote ''AAA'' 11, quote ''BBB'' 5]\<rparr>)) 2000)
       = \<lparr>wolfee_market_data = Some \<lparr>stocks = Some [quote ''AAA'' 10]\<rparr>,
          wolfee_cache_time = Some 1000, wolfee_ai_insight = None,
          wolfee_opportunities = None, wolfee_portfolio = None\<rparr>"
  using full_stage_failure_changes_nothing
    [of "Response False (Parsed \<lparr>stocks = Some [quote ''AAA'' 11, quote ''BBB'' 5]\<rparr>)"
        "outcome_state (fetchQuickBatch fresh (Response True (Parsed \<lparr>stocks = Some [quote ''AAA'' 10]\<rparr>)) 1000)"
        2000]
  by (simp add: workingSet_def) (simp add: fetchQuickBatch_def processData_def setCache_def fresh_def Let_def)

text \<open>
  A body that parses but carries no \<open>stocks\<close> array is not one of these failures.
  \<open>fetchFullBatchInBackground\<close> has written the cache by the time \<open>data.stocks.filter\<close>
  throws, whereas \<open>fetchFullBatch\<close> writes nothing for it.
\<close>

lemma missing_stocks_overwrites_cache:
  "sessionStorage (fetchFullBatchInBackground st (Response True (Parsed \<lparr>stocks = None\<rparr>)) now)
     = (sessionStorage st)\<lparr>wolfee_market_data := Some \<lparr>stocks = None\<rparr>, wolfee_cache_time := Some now\<rparr>"
  by (simp add: fetchFullBatchInBackground_def setCache_def Let_def)

lemma missing_stocks_fetchFullBatch:
  "fetchFullBatch st (Response True (Parsed \<lparr>stocks = None\<rparr>)) now
     = st\<lparr>requests := requests st @ [MarketFull]\<rparr>"
  by (simp add: fetchFullBatch_def Let_def)

section \<open>Cache lifetime\<close>

lemma marketRequests_loadAIInsight [simp]:
  "marketRequests (loadAIInsight st net) = marketRequests st"
  by (simp add: loadAIInsight_def marketRequests_def Let_def split: option.splits list.splits)

lemma marketRequests_loadOpportunities [simp]:
  "marketRequests (loadOpportunities st net) = marketRequests st"
  by (simp add: loadOpportunities_def marketRequests_def Let_def split: option.splits)

lemma marketRequests_processData [simp]:
  "marketRequests (processData st data) = marketRequests st"
  by (simp add: processData_def marketRequests_def Let_def)

lemma marketRequests_setCache [simp]:
  "marketRequests (setCache st data now) = marketRequests st"
  by (simp add: setCache_def marketRequests_def)

lemma marketRequests_full [simp]:
  "marketRequests (fetchFullBatchInBackground st resp now) = marketRequests st @ [MarketFull]"
  by (simp add: fetchFullBatchInBackground_def marketRequests_def setCache_def Let_def
      split: response.splits body.splits option.splits)

lemma marketRequests_fetchFullBatch [simp]:
  "marketRequests (fetchFullBatch st resp now) = marketRequests st @ [MarketFull]"
  by (simp add: fetchFullBatch_def marketRequests_def setCache_def processData_def Let_def
      split: response.splits body.splits option.splits)

lemma marketRequests_quick [simp]:
  "marketRequests (outcome_state (fetchQuickBatch st resp now)) = marketRequests st @ [MarketQuick]"
  by (simp add: fetchQuickBatch_def marketRequests_def setCache_def processData_def Let_def
      split: response.splits body.splits option.splits)

lemma marketRequests_quick_mock [simp]:
  "marketRequests (outcome_state (fetchQuickBatch_mock mock st resp now)) = marketRequests st @ [MarketQuick]"
  by (simp add: fetchQuickBatch_mock_def marketRequests_def setCache_def processData_def Let_def
      split: response.splits body.splits option.splits)

lemma window_allStocks_loads [simp]:
  "window_allStocks (loadAIInsight st net) = window_allStocks st"
  "window_allStocks (loadOpportunities st net) = window_allStocks st"
  by (simp_all add: loadAIInsight_def loadOpportunities_def Let_def split: option.splits list.splits)

lemma init_cached:
  "cachedSnapshot st now = Some data \<Longrightarrow>
   marketRequests (init st now net) = marketRequests st
   \<and> window_allStocks (init st now net) = Some (case stocks data of None \<Rightarrow> [] | Some xs \<Rightarrow> xs)"
  by (simp add: init_def) (simp add: processData_def Let_def)

lemma init_mock_cached:
  "cachedSnapshot st now = Some data \<Longrightarrow>
   marketRequests (init_mock st now net) = marketRequests st
   \<and> window_allStocks (init_mock st now net) = Some (case stocks data of None \<Rightarrow> [] | Some xs \<Rightarrow> xs)"
  by (simp add: init_mock_def) (simp add: processData_def Let_def)

lemma init_uncached:
  "cachedSnapshot st now = None \<Longrightarrow>
   marketRequests (init st now net) = marketRequests st @
     (case fetchQuickBatch st (net_quick net) (net_quick_time net) of
        Returned s \<Rightarrow> [MarketQuick, MarketFull] | Threw s \<Rightarrow> [MarketQuick])"
proof -
  assume c: "cachedSnapshot st now = None"
  show ?thesis
  proof (cases "fetchQuickBatch st (net_quick net) (net_quick_time net)")
    case (Returned s)
    with marketRequests_quick [of st "net_quick net" "net_quick_time net"]
    show ?thesis by (simp add: init_def c)
  next
    case (Threw s)
    with marketRequests_quick [of st "net_quick net" "net_quick_time net"]
    show ?thesis by (simp add: init_def c)
  qed
qed

lemma init_mock_uncached:
  "cachedSnapshot st now = None \<Longrightarrow>
   marketRequests (init_mock st now net) = marketRequests st @
     (case fetchQuickBatch_mock (net_mock net) st (net_quick net) (net_quick_time net) of
        Returned s \<Rightarrow> [MarketQuick, MarketFull] | Threw s \<Rightarrow> [MarketQuick])"
proof -
  assume c: "cachedSnapshot st now = None"
  show ?thesis
  proof (cases "fetchQuickBatch_mock (net_mock net) st (net_quick net) (net_quick_time net)")
    case (Returned s)
    with marketRequests_quick_mock [of "net_mock net" st "net_quick net" "net_quick_time net"]
    show ?thesis by (simp add: init_mock_def c)
  next
    case (Threw s)
    with marketRequests_quick_mock [of "net_mock net" st "net_quick net" "net_quick_time net"]
    show ?thesis by (simp add: init_mock_def c)
  qed
qed

text \<open>
  C4. With a snapshot and a timestamp \<open>t0\<close> in the cache, a start-up at time \<open>t1\<close> uses the
  cache exactly when \<open>t1 - t0 < 300000\<close>. Then no request of either pipeline stage is
  issued and the working set is the cached list. From \<open>t1 - t0 = 300000\<close> on the cache is
  not used: the quick stage is requested, and the full stage after it when the quick
  stage returns. Both versions of \<open>init\<close> agree on this.
\<close>

theorem cache_valid_iff_younger_than_ttl:
  assumes "wolfee_market_data (sessionStorage st) = Some data"
    and "wolfee_cache_time (sessionStorage st) = Some t0"
  shows "(cachedSnapshot st t1 = Some data) = (t1 - t0 < 300000)
       \<and> (cachedSnapshot st t1 = None) = (300000 \<le> t1 - t0)
       \<and> (t1 - t0 < 300000 \<longrightarrow>
            marketRequests (init st t1 net) = marketRequests st
            \<and> window_allStocks (init st t1 net) = Some (case stocks data of None \<Rightarrow> [] | Some xs \<Rightarrow> xs)
            \<and> marketRequests (init_mock st t1 net) = marketRequests st
            \<and> window_allStocks (init_mock st t1 net) = Some (case stocks data of None \<Rightarrow> [] | Some xs \<Rightarrow> xs))
       \<and> (300000 \<le> t1 - t0 \<longrightarrow>
            marketRequests (init st t1 net) = marketRequests st @
              (case fetchQuickBatch st (net_quick net) (net_quick_time net) of
                 Returned s \<Rightarrow> [MarketQuick, MarketFull] | Threw s \<Rightarrow> [MarketQuick])
            \<and> marketRequests (init_mock st t1 net) = marketRequests st @
              (case fetchQuickBatch_mock (net_mock net) st (net_quick net) (net_quick_time net) of
                 Returned s \<Rightarrow> [MarketQuick, MarketFull] | Threw s \<Rightarrow> [MarketQuick]))"
proof -
  have valid: "t1 - t0 < 300000 \<Longrightarrow> cachedSnapshot st t1 = Some data"
    and stale: "300000 \<le> t1 - t0 \<Longrightarrow> cachedSnapshot st t1 = None"
    using assms by (simp_all add: cachedSnapshot_def)
  have iff1: "(cachedSnapshot st t1 = Some data) = (t1 - t0 < 300000)"
    using assms by (simp add: cachedSnapshot_def)
  have iff2: "(cachedSnapshot st t1 = None) = (300000 \<le> t1 - t0)"
    using assms by (auto simp add: cachedSnapshot_def)
  show ?thesis
    using iff1 iff2 init_cached [OF valid, of net] init_mock_cached [OF valid, of net]
      init_uncached [OF stale, of net] init_mock_uncached [OF stale, of net]
    by blast
qed

theorem cache_valid_iff_younger_than_ttl_witness:
  "wolfee_market_data (sessionStorage all_keys_set) = Some \<lparr>stocks = Some [quote ''AAA'' 10]\<rparr>
   \<and> wolfee_cache_time (sessionStorage all_keys_set) = Some 1000
   \<and> cachedSnapshot all_keys_set 300999 = Some \<lparr>stocks = Some [quote ''AAA'' 10]\<rparr>
   \<and> marketRequests (init all_keys_set 300999 online) = []
   \<and> window_allStocks (init all_keys_set 300999 online) = Some [quote ''AAA'' 10]
   \<and> cachedSnapshot all_keys_set 301000 = None
   \<and> marketRequests (init all_keys_set 301000 online) = [MarketQuick, MarketFull]
   \<and> marketRequests (init_mock all_keys_set 301000 online) = [MarketQuick, MarketFull]"
proof -
  have d: "wolfee_market_data (sessionStorage all_keys_set) = Some \<lparr>stocks = Some [quote ''AAA'' 10]\<rparr>"
    and t: "wolfee_cache_time (sessionStorage all_keys_set) = Some 1000"
    by (simp_all add: all_keys_set_def)
  have r: "marketRequests all_keys_set = []"
    by (simp add: marketRequests_def all_keys_set_def)
  have q: "(case fetchQuickBatch all_keys_set (net_quick online) (net_quick_time online) of
              Returned s \<Rightarrow> [MarketQuick, MarketFull] | Threw s \<Rightarrow> [MarketQuick])
           = [MarketQuick, MarketFull]"
    by (simp add: fetchQuickBatch_def online_def Let_def)
  have qm: "(case fetchQuickBatch_mock (net_mock online) all_keys_set (net_quick online)
                  (net_quick_time online) of
               Returned s \<Rightarrow> [MarketQuick, MarketFull] | Threw s \<Rightarrow> [MarketQuick])
           = [MarketQuick, MarketFull]"
    by (simp add: fetchQuickBatch_mock_def online_def Let_def)
  show ?thesis
    using cache_valid_iff_younger_than_ttl [OF d t, of 300999 online]
      cache_valid_iff_younger_than_ttl [OF d t, of 301000 online]
    by (simp add: d t r q qm)
qed

section \<open>Refresh\<close>

text \<open>
  C8, evaluated. In a session with all five keys set, a refresh while the backend is
  unreachable removes the snapshot blob, the insight text and the opportunities list
  and keeps the portfolio, but the write timestamp \<open>wolfee_cache_time\<close> is still
  there: none of the three \<open>removeItem\<close> calls names it.
\<close>

theorem refreshMarket_leaves_cache_time:
  "wolfee_cache_time (sessionStorage (refreshMarket all_keys_set 2000 offline)) = Some 1000
   \<and> wolfee_market_data (sessionStorage (refreshMarket all_keys_set 2000 offline)) = None
   \<and> wolfee_ai_insight (sessionStorage (refreshMarket all_keys_set 2000 offline)) = None
   \<and> wolfee_opportunities (sessionStorage (refreshMarket all_keys_set 2000 offline)) = None
   \<and> wolfee_portfolio (sessionStorage (refreshMarket all_keys_set 2000 offline)) = Some [quote ''AAA'' 10]
   \<and> wolfee_cache_time (clearCacheKeys s) = wolfee_cache_time s
   \<and> wolfee_portfolio (clearCacheKeys s) = wolfee_portfolio s"
  by (simp add: refreshMarket_def init_def cachedSnapshot_def clearCacheKeys_def all_keys_set_def
      offline_def fetchQuickBatch_def)

section \<open>Portfolio\<close>

lemma findIndex_ge: "- 1 \<le> findIndex P xs"
  by (induction xs) (auto simp: Let_def)

lemma findIndex_neg_iff: "findIndex P xs < 0 \<longleftrightarrow> (\<forall>x \<in> set xs. \<not> P x)"
  using findIndex_ge [of P] by (induction xs) (auto simp: Let_def)

lemma splice_first_match:
  assumes "distinct (map symbol xs)" and "0 \<le> findIndex (\<lambda>s. symbol s = k) xs"
  shows "symbol ` set (take (nat (findIndex (\<lambda>s. symbol s = k) xs)) xs
            @ drop (nat (findIndex (\<lambda>s. symbol s = k) xs) + 1) xs) = symbol ` set xs - {k}
       \<and> distinct (map symbol (take (nat (findIndex (\<lambda>s. symbol s = k) xs)) xs
            @ drop (nat (findIndex (\<lambda>s. symbol s = k) xs) + 1) xs))"
  using assms
proof (induction xs)
  case Nil
  then show ?case by simp
next
  case (Cons x xs)
  show ?case
  proof (cases "symbol x = k")
    case True
    with Cons.prems show ?thesis by auto
  next
    case False
    let ?i = "findIndex (\<lambda>s. symbol s = k) xs"
    from Cons.prems(2) False have i: "0 \<le> ?i"
      by (simp add: Let_def split: if_splits)
    then have idx: "findIndex (\<lambda>s. symbol s = k) (x # xs) = ?i + 1"
      using False by (simp add: Let_def)
    have n: "nat (?i + 1) = Suc (nat ?i)"
      using i by simp
    from Cons.prems(1) have dx: "distinct (map symbol xs)" and nx: "symbol x \<notin> symbol ` set xs"
      by simp_all
    from Cons.IH [OF dx i]
    have ih1: "symbol ` set (take (nat ?i) xs @ drop (nat ?i + 1) xs) = symbol ` set xs - {k}"
      and ih2: "distinct (map symbol (take (nat ?i) xs @ drop (nat ?i + 1) xs))"
      by simp_all
    have shape: "take (nat (?i + 1)) (x # xs) @ drop (nat (?i + 1) + 1) (x # xs)
        = x # (take (nat ?i) xs @ drop (nat ?i + 1) xs)"
      by (simp add: n)
    have "symbol ` set (x # (take (nat ?i) xs @ drop (nat ?i + 1) xs)) = symbol ` set (x # xs) - {k}"
      using ih1 False by (simp only: list.set image_insert) blast
    moreover have "set (take (nat ?i) xs @ drop (nat ?i + 1) xs) \<subseteq> set xs"
      by (auto dest: in_set_takeD in_set_dropD)
    then have "symbol x \<notin> symbol ` set (take (nat ?i) xs @ drop (nat ?i + 1) xs)"
      using nx by blast
    then have "distinct (map symbol (x # (take (nat ?i) xs @ drop (nat ?i + 1) xs)))"
      using ih2 by (simp only: list.map distinct.simps set_map) simp
    ultimately show ?thesis
      by (simp only: idx shape)
  qed
qed

lemma find_symbol_None: "find (\<lambda>s. symbol s = k) xs = None \<longleftrightarrow> k \<notin> symbol ` set xs"
  by (auto simp: find_None_iff)

lemma find_symbol_Some: "find (\<lambda>s. symbol s = k) xs = Some r \<Longrightarrow> symbol r = k"
  by (auto simp: find_Some_iff)

lemma getPortfolio_savePortfolio [simp]: "getPortfolio (savePortfolio st l) = l"
  by (simp add: getPortfolio_def savePortfolio_def)

lemma savePortfolio_fields [simp]:
  "currentSymbol (savePortfolio st l) = currentSymbol st"
  "window_allStocks (savePortfolio st l) = window_allStocks st"
  by (simp_all add: savePortfolio_def)

text \<open>One toggle with a resolvable, non-empty key.\<close>

lemma toggle_resolved:
  assumes "currentSymbol st = Some k" and "k \<noteq> []" and "window_allStocks st = Some ws"
    and "find (\<lambda>s. symbol s = k) ws = Some r"
  shows "togglePortfolioItem st = Returned (savePortfolio st
           (if 0 \<le> findIndex (\<lambda>s. symbol s = k) (getPortfolio st)
            then take (nat (findIndex (\<lambda>s. symbol s = k) (getPortfolio st))) (getPortfolio st)
                 @ drop (nat (findIndex (\<lambda>s. symbol s = k) (getPortfolio st)) + 1) (getPortfolio st)
            else getPortfolio st @ [r]))"
  using assms by (simp add: togglePortfolioItem_def Let_def)

lemma toggle_keys:
  assumes "currentSymbol st = Some k" and "k \<noteq> []" and "window_allStocks st = Some ws"
    and "find (\<lambda>s. symbol s = k) ws = Some r"
    and "distinct (map symbol (getPortfolio st))"
  shows "\<exists>st1. togglePortfolioItem st = Returned st1
           \<and> currentSymbol st1 = Some k \<and> window_allStocks st1 = Some ws
           \<and> distinct (map symbol (getPortfolio st1))
           \<and> symbol ` set (getPortfolio st1) =
               (if k \<in> symbol ` set (getPortfolio st) then symbol ` set (getPortfolio st) - {k}
                else insert k (symbol ` set (getPortfolio st)))"
proof (cases "0 \<le> findIndex (\<lambda>s. symbol s = k) (getPortfolio st)")
  case True
  then have "k \<in> symbol ` set (getPortfolio st)"
    using findIndex_neg_iff [of "\<lambda>s. symbol s = k" "getPortfolio st"] by auto
  with True splice_first_match [OF assms(5) True] toggle_resolved [OF assms(1-4)] assms(1,3)
  show ?thesis by simp
next
  case False
  then have "k \<notin> symbol ` set (getPortfolio st)"
    using findIndex_neg_iff [of "\<lambda>s. symbol s = k" "getPortfolio st"] by auto
  with False toggle_resolved [OF assms(1-4)] assms(1,3,5) find_symbol_Some [OF assms(4)]
  show ?thesis by simp
qed

text \<open>
  While \<open>window.allStocks\<close> is undefined the lookup throws; nothing has been written
  by then.
\<close>

lemma toggle_undefined_working_set:
  "window_allStocks st = None \<Longrightarrow> outcome_state (togglePortfolioItem st) = st"
  by (simp add: togglePortfolioItem_def split: option.splits)

text \<open>Every toggle keeps the portfolio keyed by symbol.\<close>

lemma togglePortfolioItem_keeps_distinct:
  assumes "distinct (map symbol (getPortfolio st))"
  shows "distinct (map symbol (getPortfolio (outcome_state (togglePortfolioItem st))))"
proof (cases "currentSymbol st")
  case None
  with assms show ?thesis by (simp add: togglePortfolioItem_def)
next
  case (Some k)
  show ?thesis
  proof (cases "k = [] \<or> window_allStocks st = None")
    case True
    with Some assms show ?thesis by (auto simp: togglePortfolioItem_def)
  next
    case False
    then obtain ws where ws: "window_allStocks st = Some ws" and k: "k \<noteq> []" by auto
    show ?thesis
    proof (cases "find (\<lambda>s. symbol s = k) ws")
      case None
      with Some ws k assms show ?thesis by (simp add: togglePortfolioItem_def)
    next
      case (Some r)
      from toggle_keys [OF \<open>currentSymbol st = Some k\<close> k ws Some assms]
      show ?thesis by auto
    qed
  qed
qed

text \<open>
  C9. For a portfolio keyed by symbol (no symbol twice) and a current symbol that the
  working set resolves, two toggles in a row return, and afterwards the portfolio has
  the same symbols as at the start and is still keyed; unless the symbol is the empty
  string, for which the toggle does nothing, the first toggle flips the membership of
  the symbol. When the working set does not resolve the symbol the toggle returns the
  state unchanged.
\<close>

theorem toggle_twice_restores_membership:
  assumes "currentSymbol st = Some k" and "window_allStocks st = Some ws"
    and "distinct (map symbol (getPortfolio st))"
  shows "(k \<in> symbol ` set ws \<longrightarrow>
            (\<exists>st1 st2. togglePortfolioItem st = Returned st1
               \<and> togglePortfolioItem st1 = Returned st2
               \<and> symbol ` set (getPortfolio st2) = symbol ` set (getPortfolio st)
               \<and> distinct (map symbol (getPortfolio st2))
               \<and> (k \<noteq> [] \<longrightarrow>
                    (k \<in> symbol ` set (getPortfolio st1)) = (k \<notin> symbol ` set (getPortfolio st)))))
       \<and> (k \<notin> symbol ` set ws \<longrightarrow> togglePortfolioItem st = Returned st)"
proof (intro conjI impI)
  assume "k \<notin> symbol ` set ws"
  then have "find (\<lambda>s. symbol s = k) ws = None"
    by (simp add: find_symbol_None)
  with assms(1,2) show "togglePortfolioItem st = Returned st"
    by (simp add: togglePortfolioItem_def)
next
  assume "k \<in> symbol ` set ws"
  then obtain r where r: "find (\<lambda>s. symbol s = k) ws = Some r"
    using find_symbol_None [of k ws] by (cases "find (\<lambda>s. symbol s = k) ws") auto
  show "\<exists>st1 st2. togglePortfolioItem st = Returned st1
               \<and> togglePortfolioItem st1 = Returned st2
               \<and> symbol ` set (getPortfolio st2) = symbol ` set (getPortfolio st)
               \<and> distinct (map symbol (getPortfolio st2))
               \<and> (k \<noteq> [] \<longrightarrow>
                    (k \<in> symbol ` set (getPortfolio st1)) = (k \<notin> symbol ` set (getPortfolio st)))"
  proof (cases "k = []")
    case True
    with assms(1,3) show ?thesis
      by (simp add: togglePortfolioItem_def)
  next
    case False
    from toggle_keys [OF assms(1) False assms(2) r assms(3)]
    obtain st1 where 1: "togglePortfolioItem st = Returned st1"
      and c1: "currentSymbol st1 = Some k" and w1: "window_allStocks st1 = Some ws"
      and d1: "distinct (map symbol (getPortfolio st1))"
      and k1: "symbol ` set (getPortfolio st1) =
               (if k \<in> symbol ` set (getPortfolio st) then symbol ` set (getPortfolio st) - {k}
                else insert k (symbol ` set (getPortfolio st)))"
      by blast
    from toggle_keys [OF c1 False w1 r d1]
    obtain st2 where 2: "togglePortfolioItem st1 = Returned st2"
      and d2: "distinct (map symbol (getPortfolio st2))"
      and k2: "symbol ` set (getPortfolio st2) =
               (if k \<in> symbol ` set (getPortfolio st1) then symbol ` set (getPortfolio st1) - {k}
                else insert k (symbol ` set (getPortfolio st1)))"
      by blast
    have "symbol ` set (getPortfolio st2) = symbol ` set (getPortfolio st)"
      using k1 k2 by (auto split: if_splits)
    moreover have "(k \<in> symbol ` set (getPortfolio st1)) = (k \<notin> symbol ` set (getPortfolio st))"
      using k1 by (auto split: if_splits)
    ultimately show ?thesis
      using 1 2 d2 by blast
  qed
qed

theorem toggle_twice_restores_membership_witness:
  "currentSymbol (all_keys_set\<lparr>currentSymbol := Some ''AAA''\<rparr>) = Some ''AAA''
   \<and> window_allStocks (all_keys_set\<lparr>currentSymbol := Some ''AAA''\<rparr>) = Some [quote ''AAA'' 10]
   \<and> distinct (map symbol (getPortfolio (all_keys_set\<lparr>currentSymbol := Some ''AAA''\<rparr>)))
   \<and> ''AAA'' \<in> symbol ` set [quote ''AAA'' 10]
   \<and> getPortfolio (all_keys_set\<lparr>currentSymbol := Some ''AAA''\<rparr>) = [quote ''AAA'' 10]
   \<and> getPortfolio (outcome_state (togglePortfolioItem (all_keys_set\<lparr>currentSymbol := Some ''AAA''\<rparr>))) = []
   \<and> getPortfolio (outcome_state (togglePortfolioItem (outcome_state
        (togglePortfolioItem (all_keys_set\<lparr>currentSymbol := Some ''AAA''\<rparr>))))) = [quote ''AAA'' 10]
   \<and> ''ZZZ'' \<notin> symbol ` set [quote ''AAA'' 10]
   \<and> togglePortfolioItem (all_keys_set\<lparr>currentSymbol := Some ''ZZZ''\<rparr>)
       = Returned (all_keys_set\<lparr>currentSymbol := Some ''ZZZ''\<rparr>)"
  using toggle_twice_restores_membership
      [of "all_keys_set\<lparr>currentSymbol := Some ''AAA''\<rparr>" "''AAA''" "[quote ''AAA'' 10]"]
    toggle_twice_restores_membership
      [of "all_keys_set\<lparr>currentSymbol := Some ''ZZZ''\<rparr>" "''ZZZ''" "[quote ''AAA'' 10]"]
  by (simp add: togglePortfolioItem_def getPortfolio_def savePortfolio_def all_keys_set_def
      quote_def Let_def)

section \<open>Filter\<close>

subsection \<open>The sort\<close>

lemma set_insert_before [simp]: "set (insert_before c a bs) = insert a (set bs)"
  by (induction bs) auto

lemma mset_insert_before [simp]: "mset (insert_before c a bs) = add_mset a (mset bs)"
  by (induction bs) auto

lemma mset_array_sort [simp]: "mset (array_sort c xs) = mset xs"
  by (induction xs) auto

lemma set_array_sort [simp]: "set (array_sort c xs) = set xs"
  by (induction xs) auto




subsection \<open>The checks\<close>


lemma interval_check:
  "(js_lt (ToNumber v) (Fin lo) \<or> js_gt (ToNumber v) (Fin hi)) = (\<not> in_closed lo hi v)"
  by (cases v) (auto simp: js_gt_def)



lemma no_upper_check: "js_gt (ToNumber v) PosInf = False"
  by (cases v) (simp_all add: js_gt_def)


lemma or_default_simps:
  "or_default NaN d = d" "or_default (Fin 0) d = d" "q \<noteq> 0 \<Longrightarrow> or_default (Fin q) d = Fin q"
  by (simp_all add: or_default_def truthy_def)


lemma in_applyFilters:
  "s \<in> set (applyFilters lc inp g st) \<longleftrightarrow>
     s \<in> set (workingSet st) \<and> (\<not> endsWith (symbol s) ''.IS'') = g
     \<and> \<not> (js_lt (ToNumber (price s)) (or_default (filter_price_min inp) (Fin 0))
           \<or> js_gt (ToNumber (price s)) (or_default (filter_price_max inp) PosInf))
     \<and> \<not> (js_lt (ToNumber (rsi s)) (or_default (filter_rsi_min inp) (Fin 0))
           \<or> js_gt (ToNumber (rsi s)) (or_default (filter_rsi_max inp) (Fin 100)))
     \<and> \<not> (js_lt (ToNumber (change_pct s)) (or_default (filter_change_min inp) NegInf)
           \<or> js_gt (ToNumber (change_pct s)) (or_default (filter_change_max inp) PosInf))
     \<and> \<not> js_lt (ToNumber (volume s)) (or_default (filter_vol_min inp) (Fin 0))"
  by (cases g) (auto simp: applyFilters_def workingSet_def Let_def split: option.splits)










text \<open>
  C7, as the code has it. For a record whose volume is missing, whether the filter
  returns it does not depend on the volume bound: it is the same with any bound as with
  none. For a record whose volume is \<open>null\<close> the volume counts as 0, so it is returned
  with a bound exactly when it is returned without one and the bound in force is not
  positive.
\<close>

theorem missing_volume_passes_volume_check:
  "(volume s = Undefined \<longrightarrow>
      (s \<in> set (applyFilters localeCompare (inp\<lparr>filter_vol_min := v\<rparr>) g st))
        = (s \<in> set (applyFilters localeCompare (inp\<lparr>filter_vol_min := NaN\<rparr>) g st)))
   \<and> (volume s = Null \<longrightarrow>
      (s \<in> set (applyFilters localeCompare (inp\<lparr>filter_vol_min := v\<rparr>) g st))
        = (s \<in> set (applyFilters localeCompare (inp\<lparr>filter_vol_min := NaN\<rparr>) g st)
           \<and> \<not> js_lt (Fin 0) (or_default v (Fin 0))))"
  by (auto simp: in_applyFilters or_default_simps)

theorem missing_volume_passes_volume_check_witness:
  "volume (quote ''AAPL'' 15) = Undefined
   \<and> quote ''AAPL'' 15 \<in> set (applyFilters codeUnitCompare (unset\<lparr>filter_vol_min := Fin 1000\<rparr>) True
        (fresh\<lparr>window_allStocks := Some [quote ''AAPL'' 15, (quote ''MSFT'' 12)\<lparr>volume := Null\<rparr>]\<rparr>))
   \<and> quote ''AAPL'' 15 \<in> set (applyFilters codeUnitCompare (unset\<lparr>filter_vol_min := NaN\<rparr>) True
        (fresh\<lparr>window_allStocks := Some [quote ''AAPL'' 15, (quote ''MSFT'' 12)\<lparr>volume := Null\<rparr>]\<rparr>))
   \<and> volume ((quote ''MSFT'' 12)\<lparr>volume := Null\<rparr>) = Null
   \<and> (quote ''MSFT'' 12)\<lparr>volume := Null\<rparr> \<notin> set (applyFilters codeUnitCompare (unset\<lparr>filter_vol_min := Fin 1000\<rparr>) True
        (fresh\<lparr>window_allStocks := Some [quote ''AAPL'' 15, (quote ''MSFT'' 12)\<lparr>volume := Null\<rparr>]\<rparr>))
   \<and> (quote ''MSFT'' 12)\<lparr>volume := Null\<rparr> \<in> set (applyFilters codeUnitCompare (unset\<lparr>filter_vol_min := NaN\<rparr>) True
        (fresh\<lparr>window_allStocks := Some [quote ''AAPL'' 15, (quote ''MSFT'' 12)\<lparr>volume := Null\<rparr>]\<rparr>))"
  using missing_volume_passes_volume_check [where s = "quote ''AAPL'' 15"
      and localeCompare = codeUnitCompare and inp = unset and v = "Fin 1000" and g = True
      and st = "fresh\<lparr>window_allStocks := Some [quote ''AAPL'' 15, (quote ''MSFT'' 12)\<lparr>volume := Null\<rparr>]\<rparr>"]
    missing_volume_passes_volume_check [where s = "(quote ''MSFT'' 12)\<lparr>volume := Null\<rparr>"
      and localeCompare = codeUnitCompare and inp = unset and v = "Fin 1000" and g = True
      and st = "fresh\<lparr>window_allStocks := Some [quote ''AAPL'' 15, (quote ''MSFT'' 12)\<lparr>volume := Null\<rparr>]\<rparr>"]
  by (simp add: applyFilters_def unset_def quote_def endsWith_def or_default_def truthy_def
      js_gt_def codeUnitCompare_def)

text \<open>
  C7 as stated fails: with the volume bound set to 1000, a global record without a
  volume is returned.
\<close>

theorem missing_volume_counterexample:
  "volume (quote ''AAPL'' 15) = Undefined
   \<and> applyFilters codeUnitCompare (unset\<lparr>filter_vol_min := Fin 1000\<rparr>) True
        (fresh\<lparr>window_allStocks := Some [quote ''AAPL'' 15]\<rparr>) = [quote ''AAPL'' 15]"
  by (simp add: applyFilters_def unset_def quote_def endsWith_def or_default_def truthy_def
      js_gt_def)

text \<open>
  C10. A price maximum of 0 (the text \<open>0\<close>) gives the same result as an empty price
  maximum (\<open>NaN\<close>), for every working set, region and other inputs. With it the filter
  returns a record of the working set exactly when the region matches and the lower
  price bound, the RSI bounds, the change bounds and the volume bound let it through:
  no upper price bound takes part, so no record is excluded for a price above 0. A
  global record priced 150 is returned.
\<close>

theorem price_max_zero_is_unset:
  "applyFilters localeCompare (inp\<lparr>filter_price_max := Fin 0\<rparr>) g st
     = applyFilters localeCompare (inp\<lparr>filter_price_max := NaN\<rparr>) g st
   \<and> (s \<in> set (applyFilters localeCompare (inp\<lparr>filter_price_max := Fin 0\<rparr>) g st))
       = (s \<in> set (workingSet st) \<and> (\<not> endsWith (symbol s) ''.IS'') = g
          \<and> \<not> js_lt (ToNumber (price s)) (or_default (filter_price_min inp) (Fin 0))
          \<and> \<not> (js_lt (ToNumber (rsi s)) (or_default (filter_rsi_min inp) (Fin 0))
                \<or> js_gt (ToNumber (rsi s)) (or_default (filter_rsi_max inp) (Fin 100)))
          \<and> \<not> (js_lt (ToNumber (change_pct s)) (or_default (filter_change_min inp) NegInf)
                \<or> js_gt (ToNumber (change_pct s)) (or_default (filter_change_max inp) PosInf))
          \<and> \<not> js_lt (ToNumber (volume s)) (or_default (filter_vol_min inp) (Fin 0)))
   \<and> applyFilters localeCompare (unset\<lparr>filter_price_max := Fin 0\<rparr>) True
        (st\<lparr>window_allStocks := Some [quote ''AAPL'' 150]\<rparr>) = [quote ''AAPL'' 150]"
proof -
  have same: "applyFilters localeCompare (inp\<lparr>filter_price_max := Fin 0\<rparr>) g st
     = applyFilters localeCompare (inp\<lparr>filter_price_max := NaN\<rparr>) g st"
    by (simp add: applyFilters_def or_default_simps)
  have member: "(s \<in> set (applyFilters localeCompare (inp\<lparr>filter_price_max := Fin 0\<rparr>) g st))
       = (s \<in> set (workingSet st) \<and> (\<not> endsWith (symbol s) ''.IS'') = g
          \<and> \<not> js_lt (ToNumber (price s)) (or_default (filter_price_min inp) (Fin 0))
          \<and> \<not> (js_lt (ToNumber (rsi s)) (or_default (filter_rsi_min inp) (Fin 0))
                \<or> js_gt (ToNumber (rsi s)) (or_default (filter_rsi_max inp) (Fin 100)))
          \<and> \<not> (js_lt (ToNumber (change_pct s)) (or_default (filter_change_min inp) NegInf)
                \<or> js_gt (ToNumber (change_pct s)) (or_default (filter_change_max inp) PosInf))
          \<and> \<not> js_lt (ToNumber (volume s)) (or_default (filter_vol_min inp) (Fin 0)))"
    by (simp add: in_applyFilters or_default_simps no_upper_check)
  have one: "applyFilters localeCompare (unset\<lparr>filter_price_max := Fin 0\<rparr>) True
        (st\<lparr>window_allStocks := Some [quote ''AAPL'' 150]\<rparr>) = [quote ''AAPL'' 150]"
    by (simp add: applyFilters_def unset_def quote_def endsWith_def or_default_def truthy_def
        js_gt_def)
  from same member one show ?thesis by blast
qed

end
